theory Spec2Isabelle
  imports Complex_Main
begin

section \<open>Python values and errors\<close>

text \<open>
  The program is \<^verbatim>\<open>src/app.py\<close>. Its numbers are Python floats (widget values, cells
  of a numeric CSV column); they are idealised as reals, so rounding, infinities and
  overflow are outside the model. A value that reaches \<^verbatim>\<open>get_epsg\<close> is
  dynamically typed: a number, the missing value \<^verbatim>\<open>nan\<close> of an empty CSV cell, a
  text cell, or the \<^verbatim>\<open>Series\<close> that \<^verbatim>\<open>row['lat']\<close> yields when the label
  is carried by more than one column.
\<close>

datatype pyval = Num real | NaN | Str string | Series "pyval list"

datatype py_error = TypeError | ValueError | KeyError | CRSError

fun is_str :: "pyval \<Rightarrow> bool" where
  "is_str (Str s) = True"
| "is_str v = False"

text \<open>\<^verbatim>\<open>int(x)\<close> on a float: truncation toward zero.\<close>

definition py_int :: "real \<Rightarrow> int" where
  "py_int x = (if x < 0 then - \<lfloor>- x\<rfloor> else \<lfloor>x\<rfloor>)"

text \<open>
  \<^verbatim>\<open>f"{n}"\<close> for a Python int: its decimal digits, most significant first, after a
  minus sign when it is negative.
\<close>

definition digit_char :: "nat \<Rightarrow> char" where
  "digit_char d = ''0123456789'' ! d"

fun str_nat :: "nat \<Rightarrow> string" where
  "str_nat n = (if n < 10 then [digit_char n] else str_nat (n div 10) @ [digit_char (n mod 10)])"

declare str_nat.simps [simp del]

definition str_int :: "int \<Rightarrow> string" where
  "str_int i = (if i < 0 then CHR ''-'' # str_nat (nat (- i)) else str_nat (nat i))"

text \<open>
  Reading a digit string back as a number; used only to state that \<open>str_nat\<close> writes
  the decimal representation.
\<close>

definition digit_value :: "char \<Rightarrow> nat" where
  "digit_value c = of_char c - 48"

definition nat_of_digits :: "string \<Rightarrow> nat" where
  "nat_of_digits cs = foldl (\<lambda>a c. 10 * a + digit_value c) 0 cs"

section \<open>Degrees, minutes, seconds to decimal degrees\<close>

text \<open>
  \<^verbatim>\<open>
  def dms_to_dd(degrees, minutes, seconds, direction):
      dd = degrees + minutes / 60 + seconds / 3600
      if direction in ['S', 'W']:
          dd *= -1
      return dd
  \<close>
  The three numbers come from number widgets and the direction is a string. The body
  has no raise and no check of any argument.
\<close>

definition dms_to_dd :: "real \<Rightarrow> real \<Rightarrow> real \<Rightarrow> string \<Rightarrow> real" where
  "dms_to_dd degrees minutes seconds direction =
     (let dd = degrees + minutes / 60 + seconds / 3600
      in if direction \<in> set [''S'', ''W''] then dd * (- 1) else dd)"

section \<open>UTM zone and EPSG code\<close>

text \<open>
  \<^verbatim>\<open>
  def get_epsg(lat, lon):
      zone_number = int((lon + 180) / 6) + 1
      hemisphere = 'N' if lat >= 0 else 'S'
      epsg_code = 32600 + zone_number if lat >= 0 else 32700 + zone_number
      utm_zone = f"{zone_number}{hemisphere}"
      return utm_zone, epsg_code
  \<close>
  The first line raises on a text value (\<^verbatim>\<open>str + int\<close>), on \<^verbatim>\<open>nan\<close>
  (\<^verbatim>\<open>int(nan)\<close>) and on a Series (\<^verbatim>\<open>int\<close> of a Series of several values). The
  comparison \<^verbatim>\<open>lat >= 0\<close> raises on a text value, is false on \<^verbatim>\<open>nan\<close>, and on a
  Series it raises either elementwise (a text element) or when the \<^verbatim>\<open>if\<close> asks for
  the truth value of the resulting Series.
\<close>

fun zone_number_of :: "pyval \<Rightarrow> py_error + int" where
  "zone_number_of (Num lon) = Inr (py_int ((lon + 180) / 6) + 1)"
| "zone_number_of NaN = Inl ValueError"
| "zone_number_of (Str s) = Inl TypeError"
| "zone_number_of (Series vs) = Inl TypeError"

fun ge_zero :: "pyval \<Rightarrow> py_error + bool" where
  "ge_zero (Num lat) = Inr (lat \<ge> 0)"
| "ge_zero NaN = Inr False"
| "ge_zero (Str s) = Inl TypeError"
| "ge_zero (Series vs) = Inl (if list_ex is_str vs then TypeError else ValueError)"

definition get_epsg :: "pyval \<Rightarrow> pyval \<Rightarrow> py_error + (string \<times> int)" where
  "get_epsg lat lon =
     (case zone_number_of lon of
        Inl e \<Rightarrow> Inl e
      | Inr zone_number \<Rightarrow>
          (case ge_zero lat of
             Inl e \<Rightarrow> Inl e
           | Inr north \<Rightarrow>
               (let hemisphere = (if north then ''N'' else ''S'');
                    epsg_code = (if north then 32600 + zone_number else 32700 + zone_number);
                    utm_zone = str_int zone_number @ hemisphere
                in Inr (utm_zone, epsg_code))))"

section \<open>The projection table\<close>

text \<open>
  \<^verbatim>\<open>
  def get_projection_info(lat, lon):
      wgs84 = pyproj.CRS("EPSG:4326")
      utm_zone, utm_epsg = get_epsg(lat, lon)
      utm = pyproj.CRS.from_epsg(utm_epsg)
      mercator = pyproj.CRS("EPSG:3857")
      return {
          "WGS84 (Geographic)": "EPSG:4326",
          f"UTM Zone {utm_zone}": f"EPSG:{utm_epsg}",
          "Web Mercator": "EPSG:3857",
          "Equal Earth": "EPSG:8857",
          "World Cylindrical Equal Area": "EPSG:54034"
      }
  \<close>
  The three \<^verbatim>\<open>pyproj\<close> calls look a code up in the library's CRS database and raise
  \<^verbatim>\<open>CRSError\<close> when it has no such entry. The database is not part of the
  repository, so it is a parameter: \<open>known code\<close> says whether the database has the
  code. The codes 8857 and 54034 are never looked up. A dict literal inserts its items
  in order; an item whose key is already present replaces the value in place.
\<close>

type_synonym pydict = "(string \<times> string) list"

definition dict_setitem :: "pydict \<Rightarrow> string \<times> string \<Rightarrow> pydict" where
  "dict_setitem d kv =
     (if fst kv \<in> set (map fst d)
      then map (\<lambda>p. if fst p = fst kv then kv else p) d
      else d @ [kv])"

definition dict_literal :: "(string \<times> string) list \<Rightarrow> pydict" where
  "dict_literal items = foldl dict_setitem [] items"

definition get_projection_info :: "(int \<Rightarrow> bool) \<Rightarrow> pyval \<Rightarrow> pyval \<Rightarrow> py_error + pydict" where
  "get_projection_info known lat lon =
     (if \<not> known 4326 then Inl CRSError
      else
        (case get_epsg lat lon of
           Inl e \<Rightarrow> Inl e
         | Inr (utm_zone, utm_epsg) \<Rightarrow>
             if \<not> known utm_epsg then Inl CRSError
             else if \<not> known 3857 then Inl CRSError
             else Inr (dict_literal
               [(''WGS84 (Geographic)'', ''EPSG:4326''),
                (''UTM Zone '' @ utm_zone, ''EPSG:'' @ str_int utm_epsg),
                (''Web Mercator'', ''EPSG:3857''),
                (''Equal Earth'', ''EPSG:8857''),
                (''World Cylindrical Equal Area'', ''EPSG:54034'')])))"

section \<open>The CSV batch\<close>

text \<open>
  The uploaded file is parsed by \<^verbatim>\<open>pd.read_csv\<close>; the model starts at the parsed
  frame: its column labels and its rows of cells. A row handed to the lambda of
  \<^verbatim>\<open>df.apply(..., axis=1)\<close> is a Series indexed by the column labels, modelled as the
  list of (label, cell) pairs. \<^verbatim>\<open>row[k]\<close> raises \<^verbatim>\<open>KeyError\<close> when no column
  has the label, yields the cell when one has, and a Series of the cells when several
  have.
\<close>

record dataframe =
  df_columns :: "string list"
  df_rows :: "pyval list list"

type_synonym series = "(string \<times> pyval) list"

definition getitem :: "series \<Rightarrow> string \<Rightarrow> py_error + pyval" where
  "getitem row k =
     (case map snd (filter (\<lambda>p. fst p = k) row) of
        [] \<Rightarrow> Inl KeyError
      | [v] \<Rightarrow> Inr v
      | v # w # vs \<Rightarrow> Inr (Series (v # w # vs)))"

text \<open>\<^verbatim>\<open>df.columns = df.columns.str.lower()\<close>, on ASCII labels.\<close>

definition lower_char :: "char \<Rightarrow> char" where
  "lower_char c =
     (let n = (of_char c :: nat) in if 65 \<le> n \<and> n \<le> 90 then char_of (n + 32) else c)"

definition lower :: "string \<Rightarrow> string" where
  "lower s = map lower_char s"

definition lower_columns :: "dataframe \<Rightarrow> dataframe" where
  "lower_columns df = df\<lparr>df_columns := map lower (df_columns df)\<rparr>"

text \<open>
  \<^verbatim>\<open>df[['lat', 'lon']].copy()\<close>: for each requested label in turn, every column that
  carries it; \<^verbatim>\<open>KeyError\<close> when a requested label is absent.
\<close>

definition select_columns :: "string list \<Rightarrow> dataframe \<Rightarrow> py_error + dataframe" where
  "select_columns ks df =
     (if \<not> set ks \<subseteq> set (df_columns df) then Inl KeyError
      else Inr \<lparr>df_columns = concat (map (\<lambda>k. filter (\<lambda>c. c = k) (df_columns df)) ks),
                df_rows = map (\<lambda>r. concat (map (\<lambda>k. map snd (filter (\<lambda>p. fst p = k)
                                (zip (df_columns df) r))) ks)) (df_rows df)\<rparr>)"

text \<open>
  \<^verbatim>\<open>df.apply(f, axis=1)\<close>. On a frame with rows, \<open>f\<close> is called on each row in
  order and the first exception ends the call. On a frame with columns and no rows
  pandas calls \<open>f\<close> once, on a probe row that holds \<^verbatim>\<open>nan\<close> under every label, to
  find out what \<open>f\<close> returns: when the probe raises, the exception is swallowed and the
  result is a copy of the (empty) frame; otherwise it is an empty Series.
  Assigning the result to one new column, \<^verbatim>\<open>df['UTM Zone'] = ...\<close>, takes a Series
  as the column and raises \<^verbatim>\<open>ValueError\<close> for a frame of several columns; the frame
  copied here always has the columns lat and lon.
\<close>

fun apply_each :: "('a \<Rightarrow> py_error + 'b) \<Rightarrow> 'a list \<Rightarrow> py_error + 'b list" where
  "apply_each f [] = Inr []"
| "apply_each f (x # xs) =
     (case f x of
        Inl e \<Rightarrow> Inl e
      | Inr y \<Rightarrow> (case apply_each f xs of Inl e \<Rightarrow> Inl e | Inr ys \<Rightarrow> Inr (y # ys)))"

datatype 'a applied = Values "'a list" | FrameCopy

definition df_apply :: "(series \<Rightarrow> py_error + 'a) \<Rightarrow> dataframe \<Rightarrow> py_error + 'a applied" where
  "df_apply f df =
     (if df_rows df = [] then
        (case f (map (\<lambda>c. (c, NaN)) (df_columns df)) of
           Inl e \<Rightarrow> Inr FrameCopy
         | Inr y \<Rightarrow> Inr (Values []))
      else
        (case apply_each f (map (zip (df_columns df)) (df_rows df)) of
           Inl e \<Rightarrow> Inl e
         | Inr ys \<Rightarrow> Inr (Values ys)))"

fun set_column :: "'a applied \<Rightarrow> py_error + 'a list" where
  "set_column (Values ys) = Inr ys"
| "set_column FrameCopy = Inl ValueError"

text \<open>
  \<^verbatim>\<open>
  if uploaded_file:
      try:
          df = pd.read_csv(uploaded_file)
          df.columns = df.columns.str.lower()
          if 'lat' in df.columns and 'lon' in df.columns:
              df = df[['lat', 'lon']].copy()
              df['UTM Zone'] = df.apply(lambda row: get_epsg(row['lat'], row['lon'])[0], axis=1)
              df['EPSG Code'] = df.apply(lambda row: get_epsg(row['lat'], row['lon'])[1], axis=1)
              df['EPSG Link'] = df['EPSG Code'].apply(lambda e: f"https://epsg.io/{e}")
              st.success(...); st.dataframe(df, ...); ... st.download_button(...)
          else:
              st.error("CSV must have columns: 'lat', 'lon'")
      except Exception as e:
          st.error(f"Error processing file: {e}")
  \<close>
  The block has three outcomes: the processed rows are shown and offered for download;
  the missing-columns message; the message of the one handler that encloses the whole
  block. An output row holds the cells of the selected columns and the three added
  columns. The second \<^verbatim>\<open>apply\<close> runs on the frame that already has the column
  \<^verbatim>\<open>UTM Zone\<close>; its lambda reads only the labels lat and lon, so the model applies it
  to the selected frame.
\<close>

datatype batch_error = MissingColumns | ProcessingError py_error

record batch_row =
  coords :: "pyval list"
  utm_zone :: string
  epsg_code :: int
  epsg_link :: string

definition row_get_epsg :: "series \<Rightarrow> py_error + (string \<times> int)" where
  "row_get_epsg row =
     (case getitem row ''lat'' of
        Inl e \<Rightarrow> Inl e
      | Inr lat \<Rightarrow>
          (case getitem row ''lon'' of
             Inl e \<Rightarrow> Inl e
           | Inr lon \<Rightarrow> get_epsg lat lon))"

definition add_columns :: "dataframe \<Rightarrow> py_error + batch_row list" where
  "add_columns df =
     (case df_apply (\<lambda>row. case row_get_epsg row of Inl e \<Rightarrow> Inl e | Inr r \<Rightarrow> Inr (fst r)) df of
        Inl e \<Rightarrow> Inl e
      | Inr applied_zone \<Rightarrow>
     (case set_column applied_zone of
        Inl e \<Rightarrow> Inl e
      | Inr zones \<Rightarrow>
     (case df_apply (\<lambda>row. case row_get_epsg row of Inl e \<Rightarrow> Inl e | Inr r \<Rightarrow> Inr (snd r)) df of
        Inl e \<Rightarrow> Inl e
      | Inr applied_code \<Rightarrow>
     (case set_column applied_code of
        Inl e \<Rightarrow> Inl e
      | Inr codes \<Rightarrow>
          (let links = map (\<lambda>e. ''https://epsg.io/'' @ str_int e) codes
           in Inr (map (\<lambda>(r, z, c, l). \<lparr>coords = r, utm_zone = z, epsg_code = c, epsg_link = l\<rparr>)
                    (zip (df_rows df) (zip zones (zip codes links)))))))))"

definition batch_lookup :: "dataframe \<Rightarrow> batch_error + batch_row list" where
  "batch_lookup uploaded =
     (let df = lower_columns uploaded in
      if ''lat'' \<in> set (df_columns df) \<and> ''lon'' \<in> set (df_columns df) then
        (case select_columns [''lat'', ''lon''] df of
           Inl e \<Rightarrow> Inl (ProcessingError e)
         | Inr selected \<Rightarrow>
             (case add_columns selected of
                Inl e \<Rightarrow> Inl (ProcessingError e)
              | Inr out \<Rightarrow> Inr out))
      else Inl MissingColumns)"

section \<open>The contract of the conversion in the specification\<close>

text \<open>
  The specification asks the conversion to fail with \<open>InvalidDirection\<close> on a direction
  outside N, S, E, W. This definition follows the specification's words, not the code;
  it is only compared with \<open>dms_to_dd\<close>.
\<close>

datatype conversion_error = InvalidDirection

definition toDecimalDegrees_spec ::
  "real \<Rightarrow> real \<Rightarrow> real \<Rightarrow> string \<Rightarrow> conversion_error + real" where
  "toDecimalDegrees_spec degrees minutes seconds direction =
     (if direction \<in> {''N'', ''S'', ''E'', ''W''}
      then Inr (if direction \<in> {''S'', ''W''}
                then - (degrees + minutes / 60 + seconds / 3600)
                else degrees + minutes / 60 + seconds / 3600)
      else Inl InvalidDirection)"

section \<open>Vocabulary of the batch theorems\<close>

text \<open>
  The cells and labels that \<^verbatim>\<open>df[['lat', 'lon']]\<close> keeps of a row and of the header.
\<close>

definition selected_cells :: "string list \<Rightarrow> pyval list \<Rightarrow> pyval list" where
  "selected_cells cols r =
     map snd (filter (\<lambda>p. fst p = ''lat'') (zip cols r)) @
     map snd (filter (\<lambda>p. fst p = ''lon'') (zip cols r))"

definition selected_labels :: "string list \<Rightarrow> string list" where
  "selected_labels cols = filter (\<lambda>c. c = ''lat'') cols @ filter (\<lambda>c. c = ''lon'') cols"

text \<open>
  \<open>numeric_row cols r p\<close>: the row \<open>r\<close> has one cell per column and, under the
  lower-cased labels \<open>cols\<close>, exactly one cell labelled lat and one labelled lon, the
  numbers \<open>fst p\<close> and \<open>snd p\<close>.
  \<open>row_result p out\<close>: the output row \<open>out\<close> retains these two numbers and carries the
  zone label and code that \<open>get_epsg\<close> returns for them, and the link made of the fixed
  prefix and the decimal code.
\<close>

definition numeric_row :: "string list \<Rightarrow> pyval list \<Rightarrow> real \<times> real \<Rightarrow> bool" where
  "numeric_row cols r p =
     (length r = length cols \<and>
      getitem (zip cols r) ''lat'' = Inr (Num (fst p)) \<and>
      getitem (zip cols r) ''lon'' = Inr (Num (snd p)))"

definition row_result :: "real \<times> real \<Rightarrow> batch_row \<Rightarrow> bool" where
  "row_result p out =
     (coords out = [Num (fst p), Num (snd p)] \<and>
      get_epsg (Num (fst p)) (Num (snd p)) = Inr (utm_zone out, epsg_code out) \<and>
      epsg_link out = ''https://epsg.io/'' @ str_int (epsg_code out))"

section \<open>Properties of the angle conversion\<close>

text \<open>
  C8. The conversion is negation-symmetric: for all degrees, minutes and seconds the
  value for direction S is the negation of the value for N, and the value for W is the
  negation of the value for E.
\<close>

theorem dms_to_dd_negation_symmetric:
  "dms_to_dd d m s ''S'' = - dms_to_dd d m s ''N'' \<and>
   dms_to_dd d m s ''W'' = - dms_to_dd d m s ''E''"
  by (simp add: dms_to_dd_def Let_def)

text \<open>
  C7. For a direction among N, S, E, W the result is degrees + minutes/60 + seconds/3600,
  negated exactly when the direction is S or W. Minutes and seconds are not checked:
  the equation holds for all reals, so minutes of 60 or more are simply added.
\<close>

theorem dms_to_dd_directions:
  "direction \<in> {''N'', ''S'', ''E'', ''W''} \<Longrightarrow>
   dms_to_dd d m s direction =
     (if direction = ''S'' \<or> direction = ''W'' then - (d + m / 60 + s / 3600)
      else d + m / 60 + s / 3600)"
  by (auto simp add: dms_to_dd_def Let_def)

theorem dms_to_dd_directions_witness:
  "''N'' \<in> {''N'', ''S'', ''E'', ''W''} \<and> dms_to_dd 10 75 0 ''N'' = 45 / 4 \<and>
   ''W'' \<in> {''N'', ''S'', ''E'', ''W''} \<and> dms_to_dd 10 0 90 ''W'' = - (401 / 40)"
  using dms_to_dd_directions [of "''N''" 10 75 0] dms_to_dd_directions [of "''W''" 10 0 90]
  by simp

text \<open>
  C10. Every direction other than S and W, whatever string it is, gives the unnegated
  sum: an unrecognised direction is treated like a positive one, and nothing is raised
  (the function has a value at every argument).
\<close>

theorem dms_to_dd_unrecognised_positive:
  "direction \<noteq> ''S'' \<Longrightarrow> direction \<noteq> ''W'' \<Longrightarrow>
   dms_to_dd d m s direction = d + m / 60 + s / 3600"
  by (simp add: dms_to_dd_def Let_def)

theorem dms_to_dd_unrecognised_positive_witness:
  "''north'' \<noteq> ''S'' \<and> ''north'' \<noteq> ''W'' \<and> dms_to_dd 10 30 0 ''north'' = 21 / 2"
  using dms_to_dd_unrecognised_positive [of "''north''" 10 30 0] by simp

text \<open>
  C3, as stated, fails: at the direction X, outside N, S, E, W, the specification's
  contract is the error \<open>InvalidDirection\<close>, while the code returns 10.5 for
  10 degrees 30 minutes, the value it returns for N.
\<close>

theorem dms_to_dd_invalid_direction_counterexample:
  "toDecimalDegrees_spec 10 30 0 ''X'' = Inl InvalidDirection \<and>
   dms_to_dd 10 30 0 ''X'' = 21 / 2 \<and>
   dms_to_dd 10 30 0 ''X'' = dms_to_dd 10 30 0 ''N'' \<and>
   toDecimalDegrees_spec 10 30 0 ''X'' \<noteq> Inr (dms_to_dd 10 30 0 ''X'')"
  by (simp add: toDecimalDegrees_spec_def dms_to_dd_def)

text \<open>
  C3, amended. For a direction outside N, S, E, W the conversion does not fail: it
  returns degrees + minutes/60 + seconds/3600, unnegated, which is the value it returns
  for N and for E.
\<close>

theorem dms_to_dd_invalid_direction:
  "direction \<notin> {''N'', ''S'', ''E'', ''W''} \<Longrightarrow>
   dms_to_dd d m s direction = d + m / 60 + s / 3600 \<and>
   dms_to_dd d m s direction = dms_to_dd d m s ''N'' \<and>
   dms_to_dd d m s direction = dms_to_dd d m s ''E''"
  by (simp add: dms_to_dd_def Let_def)

theorem dms_to_dd_invalid_direction_witness:
  "''north'' \<notin> {''N'', ''S'', ''E'', ''W''} \<and>
   dms_to_dd 1 2 3 ''north'' = 1241 / 1200 \<and>
   dms_to_dd 1 2 3 ''N'' = 1241 / 1200 \<and>
   dms_to_dd 1 2 3 ''E'' = 1241 / 1200"
  using dms_to_dd_invalid_direction [of "''north''" 1 2 3] by simp

section \<open>Properties of the zone computation\<close>

text \<open>
  \<open>py_int q\<close> is the truncation of \<open>q\<close> toward zero: the integer whose absolute value
  is at most that of \<open>q\<close> and less than one below it, with the sign of \<open>q\<close>.
\<close>

lemma py_int_truncates:
  "\<bar>real_of_int (py_int q)\<bar> \<le> \<bar>q\<bar> \<and> \<bar>q\<bar> < \<bar>real_of_int (py_int q)\<bar> + 1 \<and>
   0 \<le> q * real_of_int (py_int q)"
proof (cases "q < 0")
  case True
  have a: "real_of_int \<lfloor>- q\<rfloor> \<le> - q" by (rule of_int_floor_le)
  have b: "- q < real_of_int \<lfloor>- q\<rfloor> + 1" by linarith
  have c: "0 \<le> \<lfloor>- q\<rfloor>" using True by simp
  have d: "q * real_of_int \<lfloor>- q\<rfloor> \<le> 0" using True c
    by (simp add: mult_nonpos_nonneg)
  show ?thesis using True a b c d by (simp add: py_int_def)
next
  case False
  have a: "real_of_int \<lfloor>q\<rfloor> \<le> q" by (rule of_int_floor_le)
  have b: "q < real_of_int \<lfloor>q\<rfloor> + 1" by linarith
  have c: "0 \<le> \<lfloor>q\<rfloor>" using False by simp
  show ?thesis using False a b c by (simp add: py_int_def)
qed

text \<open>\<open>str_nat\<close> writes the decimal digits of its argument.\<close>

lemma digit_value_digit_char:
  assumes "d < 10"
  shows "digit_value (digit_char d) = d"
proof -
  have "d \<in> {0, 1, 2, 3, 4, 5, 6, 7, 8, 9}" using assms by auto
  then show ?thesis
    by (auto simp add: digit_value_def digit_char_def)
qed

lemma nat_of_digits_str_nat: "nat_of_digits (str_nat n) = n"
proof (induction n rule: str_nat.induct)
  case (1 n)
  show ?case
  proof (cases "n < 10")
    case True
    then show ?thesis
      by (simp add: str_nat.simps [of n] nat_of_digits_def digit_value_digit_char)
  next
    case False
    have "nat_of_digits (str_nat n) =
          10 * nat_of_digits (str_nat (n div 10)) + digit_value (digit_char (n mod 10))"
      using False by (simp add: str_nat.simps [of n] nat_of_digits_def)
    also have "\<dots> = 10 * (n div 10) + n mod 10"
      using False "1.IH" by (simp add: digit_value_digit_char)
    finally show ?thesis by simp
  qed
qed

text \<open>
  C1. On numbers, \<open>get_epsg\<close> returns the label made of the decimal zone number and the
  hemisphere letter, and the code 32600 or 32700 plus the zone number; the hemisphere is
  N exactly when the latitude is at least 0; the zone number is one more than the
  truncation toward zero of (lon + 180) / 6, the truncation being characterised by the
  last three conjuncts. That \<open>str_int\<close> writes decimal digits is the lemma
  \<open>nat_of_digits_str_nat\<close> above. A latitude of exactly 0 is in the northern branch.
\<close>

theorem get_epsg_numeric:
  "get_epsg (Num lat) (Num lon) =
     Inr (str_int (py_int ((lon + 180) / 6) + 1) @ (if lat \<ge> 0 then ''N'' else ''S''),
          (if lat \<ge> 0 then 32600 else 32700) + (py_int ((lon + 180) / 6) + 1)) \<and>
   \<bar>real_of_int (py_int ((lon + 180) / 6))\<bar> \<le> \<bar>(lon + 180) / 6\<bar> \<and>
   \<bar>(lon + 180) / 6\<bar> < \<bar>real_of_int (py_int ((lon + 180) / 6))\<bar> + 1 \<and>
   0 \<le> (lon + 180) / 6 * real_of_int (py_int ((lon + 180) / 6))"
  using py_int_truncates [of "(lon + 180) / 6"] by (simp add: get_epsg_def)

theorem get_epsg_numeric_witness:
  "get_epsg (Num 0) (Num 0) = Inr (''31N'', 32631) \<and>
   get_epsg (Num (515 / 10)) (Num (- 1 / 10)) = Inr (''30N'', 32630) \<and>
   get_epsg (Num (- 339 / 10)) (Num (1512 / 10)) = Inr (''56S'', 32756)"
  using get_epsg_numeric [of 0 0] get_epsg_numeric [of "515 / 10" "- 1 / 10"]
    get_epsg_numeric [of "- 339 / 10" "1512 / 10"]
  by (simp add: py_int_def str_int_def str_nat.simps digit_char_def)

section \<open>Properties of the projection table\<close>



lemma get_projection_info_lookup_fails:
  assumes "get_epsg lat lon = Inr (zone, code)" and "\<not> known code"
  shows "get_projection_info known lat lon = Inl CRSError"
  using assms by (simp add: get_projection_info_def)




section \<open>Properties of the CSV batch\<close>

subsection \<open>Selecting the columns\<close>

lemma select_lat_lon:
  "''lat'' \<in> set cols \<Longrightarrow> ''lon'' \<in> set cols \<Longrightarrow>
   select_columns [''lat'', ''lon''] \<lparr>df_columns = cols, df_rows = rows\<rparr> =
     Inr \<lparr>df_columns = selected_labels cols, df_rows = map (selected_cells cols) rows\<rparr>"
  by (simp add: select_columns_def selected_labels_def selected_cells_def)

lemma filter_labels_zip:
  "length r = length cols \<Longrightarrow>
   filter (\<lambda>c. c = k) cols = map fst (filter (\<lambda>p. fst p = k) (zip cols r))"
  by (induction r cols rule: list_induct2) auto

lemma zip_selected:
  assumes "length r = length cols"
  shows "zip (selected_labels cols) (selected_cells cols r) =
     filter (\<lambda>p. fst p = ''lat'') (zip cols r) @ filter (\<lambda>p. fst p = ''lon'') (zip cols r)"
proof -
  have a: "filter (\<lambda>c. c = ''lat'') cols = map fst (filter (\<lambda>p. fst p = ''lat'') (zip cols r))"
    using assms by (rule filter_labels_zip)
  have b: "filter (\<lambda>c. c = ''lon'') cols = map fst (filter (\<lambda>p. fst p = ''lon'') (zip cols r))"
    using assms by (rule filter_labels_zip)
  show ?thesis
    unfolding selected_labels_def selected_cells_def a b
    by (simp add: zip_map_fst_snd)
qed

lemma getitem_selected:
  assumes "length r = length cols" and "k = ''lat'' \<or> k = ''lon''"
  shows "getitem (zip (selected_labels cols) (selected_cells cols r)) k = getitem (zip cols r) k"
proof -
  have "filter (\<lambda>p. fst p = k)
          (filter (\<lambda>p. fst p = ''lat'') (zip cols r) @ filter (\<lambda>p. fst p = ''lon'') (zip cols r)) =
        filter (\<lambda>p. fst p = k) (zip cols r)"
    using assms(2) by (auto intro: filter_cong)
  then show ?thesis
    by (simp add: getitem_def zip_selected [OF assms(1)])
qed

lemma selected_labels_mem:
  "''lat'' \<in> set cols \<Longrightarrow> ''lat'' \<in> set (selected_labels cols)"
  "''lon'' \<in> set cols \<Longrightarrow> ''lon'' \<in> set (selected_labels cols)"
  by (auto simp add: selected_labels_def)

lemma batch_lookup_selected:
  assumes "''lat'' \<in> set (map lower (df_columns df))" and "''lon'' \<in> set (map lower (df_columns df))"
  shows "batch_lookup df =
     (case add_columns \<lparr>df_columns = selected_labels (map lower (df_columns df)),
                        df_rows = map (selected_cells (map lower (df_columns df))) (df_rows df)\<rparr> of
        Inl e \<Rightarrow> Inl (ProcessingError e)
      | Inr out \<Rightarrow> Inr out)"
proof -
  have "lower_columns df = \<lparr>df_columns = map lower (df_columns df), df_rows = df_rows df\<rparr>"
    by (simp add: lower_columns_def)
  then show ?thesis
    using assms by (simp add: batch_lookup_def Let_def select_lat_lon)
qed

subsection \<open>The row loop\<close>

lemma apply_each_fail:
  "x \<in> set xs \<Longrightarrow> f x = Inl e \<Longrightarrow> \<exists>e'. apply_each f xs = Inl e'"
  by (induction xs) (auto split: sum.splits)

lemma rows_of_columns:
  "map (\<lambda>(r, z, c, l). \<lparr>coords = r, utm_zone = z, epsg_code = c, epsg_link = l\<rparr>)
     (zip (map a xs) (zip (map b xs) (zip (map c xs) (map d xs)))) =
   map (\<lambda>x. \<lparr>coords = a x, utm_zone = b x, epsg_code = c x, epsg_link = d x\<rparr>) xs"
  by (induction xs) auto

lemma add_columns_rows:
  assumes "rows \<noteq> []"
    and "\<And>r. r \<in> set rows \<Longrightarrow> row_get_epsg (zip cs (sel r)) = Inr (g r)"
  shows "add_columns \<lparr>df_columns = cs, df_rows = map sel rows\<rparr> =
     Inr (map (\<lambda>r. \<lparr>coords = sel r, utm_zone = fst (g r), epsg_code = snd (g r),
                     epsg_link = ''https://epsg.io/'' @ str_int (snd (g r))\<rparr>) rows)"
proof -
  have z: "apply_each (\<lambda>row. case row_get_epsg row of Inl e \<Rightarrow> Inl e | Inr r \<Rightarrow> Inr (fst r))
             (map (zip cs \<circ> sel) rows) = Inr (map (\<lambda>r. fst (g r)) rows)"
    using assms(2) by (induction rows) auto
  have c: "apply_each (\<lambda>row. case row_get_epsg row of Inl e \<Rightarrow> Inl e | Inr r \<Rightarrow> Inr (snd r))
             (map (zip cs \<circ> sel) rows) = Inr (map (\<lambda>r. snd (g r)) rows)"
    using assms(2) by (induction rows) auto
  show ?thesis
    using assms(1) by (simp add: add_columns_def df_apply_def z c rows_of_columns)
qed

text \<open>Evaluation of \<open>lower\<close> on the labels used in the examples below.\<close>

lemma lower_examples:
  "lower ''lat'' = ''lat''" "lower ''lon'' = ''lon''" "lower ''Lat'' = ''lat''"
  "lower ''LAT'' = ''lat''" "lower ''Lon'' = ''lon''" "lower ''LON'' = ''lon''"
  "lower ''Long'' = ''long''" "lower ''Name'' = ''name''"
  by code_simp+

subsection \<open>Missing columns\<close>

text \<open>
  C4. A table that, after lower-casing its labels, has no column lat or no column lon
  gives the missing-columns outcome, whatever its rows hold: no row is read and no
  output row is produced.
\<close>

theorem batch_lookup_missing_columns:
  "''lat'' \<notin> set (map lower (df_columns df)) \<or> ''lon'' \<notin> set (map lower (df_columns df)) \<Longrightarrow>
   batch_lookup df = Inl MissingColumns"
  by (auto simp add: batch_lookup_def lower_columns_def Let_def)

theorem batch_lookup_missing_columns_witness:
  "''lon'' \<notin> set (map lower (df_columns \<lparr>df_columns = [''Lat'', ''Long''], df_rows = [[Str ''abc'', Num 1]]\<rparr>)) \<and>
   batch_lookup \<lparr>df_columns = [''Lat'', ''Long''], df_rows = [[Str ''abc'', Num 1]]\<rparr> = Inl MissingColumns"
  using batch_lookup_missing_columns [of "\<lparr>df_columns = [''Lat'', ''Long''], df_rows = [[Str ''abc'', Num 1]]\<rparr>"]
  by (simp add: lower_examples)

subsection \<open>A table without rows\<close>

lemma probe_getitem:
  assumes "k \<in> set cs"
  shows "getitem (map (\<lambda>c. (c, NaN)) cs) k = Inr NaN \<or>
         (\<exists>vs. getitem (map (\<lambda>c. (c, NaN)) cs) k = Inr (Series vs))"
proof -
  have m: "map snd (filter (\<lambda>p. fst p = k) (map (\<lambda>c. (c, NaN)) cs)) =
           replicate (length (filter (\<lambda>c. c = k) cs)) NaN"
    by (induction cs) auto
  have "filter (\<lambda>c. c = k) cs \<noteq> []"
    using assms by (auto simp add: filter_empty_conv)
  then obtain n where n: "length (filter (\<lambda>c. c = k) cs) = Suc n"
    by (cases "filter (\<lambda>c. c = k) cs") auto
  show ?thesis
    by (cases n) (simp_all add: getitem_def m n)
qed

lemma zone_number_of_probe:
  "v = NaN \<or> (\<exists>vs. v = Series vs) \<Longrightarrow> \<exists>e. zone_number_of v = Inl e"
  by auto

lemma row_get_epsg_probe:
  assumes "''lat'' \<in> set cs" and "''lon'' \<in> set cs"
  shows "\<exists>e. row_get_epsg (map (\<lambda>c. (c, NaN)) cs) = Inl e"
proof -
  obtain a where a: "getitem (map (\<lambda>c. (c, NaN)) cs) ''lat'' = Inr a"
    using probe_getitem [OF assms(1)] by auto
  obtain b where b: "getitem (map (\<lambda>c. (c, NaN)) cs) ''lon'' = Inr b"
    and b': "b = NaN \<or> (\<exists>vs. b = Series vs)"
    using probe_getitem [OF assms(2)] by auto
  obtain e where "zone_number_of b = Inl e"
    using zone_number_of_probe [OF b'] by auto
  then show ?thesis
    by (simp add: row_get_epsg_def a b get_epsg_def)
qed

text \<open>
  C9 fails on the code. A table with the columns lat and lon and no rows does not give
  an empty output: \<^verbatim>\<open>apply\<close> probes the lambda on a row of \<^verbatim>\<open>nan\<close>, where
  \<^verbatim>\<open>int(nan)\<close> raises, returns a copy of the frame, and assigning it to the column
  \<^verbatim>\<open>UTM Zone\<close> raises \<^verbatim>\<open>ValueError\<close>, which the handler of the block reports.
\<close>

theorem batch_lookup_no_rows:
  assumes "df_rows df = []"
    and "''lat'' \<in> set (map lower (df_columns df))"
    and "''lon'' \<in> set (map lower (df_columns df))"
  shows "batch_lookup df = Inl (ProcessingError ValueError)"
proof -
  obtain e where e: "row_get_epsg (map (\<lambda>c. (c, NaN)) (selected_labels (map lower (df_columns df)))) = Inl e"
    using row_get_epsg_probe selected_labels_mem assms(2,3) by blast
  show ?thesis
    by (simp add: batch_lookup_selected [OF assms(2,3)] assms(1) add_columns_def df_apply_def e)
qed

theorem batch_lookup_no_rows_witness:
  "batch_lookup \<lparr>df_columns = [''Lat'', ''LON''], df_rows = []\<rparr> = Inl (ProcessingError ValueError)"
  using batch_lookup_no_rows [of "\<lparr>df_columns = [''Lat'', ''LON''], df_rows = []\<rparr>"]
  by (simp add: lower_examples)

subsection \<open>Numeric tables\<close>

lemma getitem_label:
  assumes "getitem (zip cols r) k = Inr v"
  shows "k \<in> set cols"
proof (rule ccontr)
  assume "k \<notin> set cols"
  then have "filter (\<lambda>p. fst p = k) (zip cols r) = []"
    by (auto simp add: filter_empty_conv dest: set_zip_leftD)
  then show False using assms by (simp add: getitem_def)
qed

lemma getitem_single:
  "getitem s k = Inr (Num x) \<Longrightarrow> map snd (filter (\<lambda>p. fst p = k) s) = [Num x]"
  by (auto simp add: getitem_def split: list.splits)

lemma selected_cells_numeric:
  "numeric_row cols r p \<Longrightarrow> selected_cells cols r = [Num (fst p), Num (snd p)]"
  by (simp add: numeric_row_def selected_cells_def getitem_single)

lemma row_get_epsg_numeric:
  "numeric_row cols r p \<Longrightarrow>
   row_get_epsg (zip (selected_labels cols) (selected_cells cols r)) =
     get_epsg (Num (fst p)) (Num (snd p))"
  by (simp add: numeric_row_def row_get_epsg_def getitem_selected)

lemma get_epsg_of_numbers:
  "\<exists>z c. get_epsg (Num x) (Num y) = Inr (z, c)"
  by (simp add: get_epsg_def Let_def)

lemma list_all2_numeric_rows:
  "list_all2 (numeric_row cols) rows pts \<Longrightarrow>
   list_all2 row_result pts
     (map (\<lambda>r. \<lparr>coords = selected_cells cols r,
                utm_zone = fst (projr (row_get_epsg (zip (selected_labels cols) (selected_cells cols r)))),
                epsg_code = snd (projr (row_get_epsg (zip (selected_labels cols) (selected_cells cols r)))),
                epsg_link = ''https://epsg.io/'' @
                  str_int (snd (projr (row_get_epsg (zip (selected_labels cols) (selected_cells cols r)))))\<rparr>)
        rows)"
proof (induction rule: list_all2_induct)
  case Nil
  then show ?case by simp
next
  case (Cons r rows p pts)
  obtain z c where zc: "get_epsg (Num (fst p)) (Num (snd p)) = Inr (z, c)"
    using get_epsg_of_numbers by blast
  have "row_get_epsg (zip (selected_labels cols) (selected_cells cols r)) = Inr (z, c)"
    using Cons.hyps(1) zc by (simp add: row_get_epsg_numeric)
  then show ?case
    using Cons zc by (simp add: row_result_def selected_cells_numeric)
qed

text \<open>
  C6, as stated, fails on two tables that have the required columns and only numeric
  values: the table without rows, and a table where two columns are named lat after
  lower-casing (\<^verbatim>\<open>row['lat']\<close> is then a Series, whose truth value in
  \<^verbatim>\<open>'N' if lat >= 0 else 'S'\<close> raises). Both give the handler's error and no rows.
\<close>

theorem batch_lookup_empty_table:
  "batch_lookup \<lparr>df_columns = [''lat'', ''lon''], df_rows = []\<rparr> = Inl (ProcessingError ValueError) \<and>
   batch_lookup \<lparr>df_columns = [''lat'', ''lon''], df_rows = []\<rparr> \<noteq> Inr [] \<and>
   batch_lookup \<lparr>df_columns = [''lat'', ''Lat'', ''lon''], df_rows = [[Num 1, Num 2, Num 3]]\<rparr> =
     Inl (ProcessingError ValueError)"
  by (simp add: batch_lookup_def lower_columns_def lower_examples select_columns_def
      add_columns_def df_apply_def row_get_epsg_def getitem_def get_epsg_def py_int_def)

text \<open>
  C6, amended. For a table with at least one row in which every row has exactly one
  cell labelled lat and one labelled lon (case-insensitively), both numbers, the output
  has one row per input row, in the input order: output row i retains the latitude and
  longitude of input row i and carries the zone label and code of \<open>get_epsg\<close> on them
  and the link \<^verbatim>\<open>https://epsg.io/\<close> followed by the decimal code.
\<close>

theorem batch_lookup_numeric:
  assumes "df_rows df \<noteq> []"
    and "list_all2 (numeric_row (map lower (df_columns df))) (df_rows df) pts"
  shows "\<exists>out. batch_lookup df = Inr out \<and> list_all2 row_result pts out"
proof -
  let ?cols = "map lower (df_columns df)"
  let ?g = "\<lambda>r. projr (row_get_epsg (zip (selected_labels ?cols) (selected_cells ?cols r)))"
  have each: "\<exists>p. numeric_row ?cols r p" if mem: "r \<in> set (df_rows df)" for r
  proof -
    obtain i where i: "i < length (df_rows df)" "df_rows df ! i = r"
      using mem unfolding in_set_conv_nth by blast
    have "numeric_row ?cols (df_rows df ! i) (pts ! i)"
      using assms(2) i(1) by (rule list_all2_nthD)
    then show ?thesis using i(2) by blast
  qed
  obtain r0 where r0: "r0 \<in> set (df_rows df)"
    using assms(1) by (cases "df_rows df") auto
  obtain p0 where p0: "numeric_row ?cols r0 p0"
    using each [OF r0] by auto
  have lat: "''lat'' \<in> set ?cols" and lon: "''lon'' \<in> set ?cols"
    using p0 by (auto simp add: numeric_row_def dest: getitem_label)
  have ok: "row_get_epsg (zip (selected_labels ?cols) (selected_cells ?cols r)) = Inr (?g r)"
    if mem: "r \<in> set (df_rows df)" for r
  proof -
    obtain p where p: "numeric_row ?cols r p" using each [OF mem] by auto
    obtain z c where zc: "get_epsg (Num (fst p)) (Num (snd p)) = Inr (z, c)"
      using get_epsg_of_numbers by blast
    show ?thesis
      using p zc by (simp add: row_get_epsg_numeric)
  qed
  have "batch_lookup df =
     Inr (map (\<lambda>r. \<lparr>coords = selected_cells ?cols r, utm_zone = fst (?g r), epsg_code = snd (?g r),
                     epsg_link = ''https://epsg.io/'' @ str_int (snd (?g r))\<rparr>) (df_rows df))"
    by (simp add: batch_lookup_selected [OF lat lon] add_columns_rows [OF assms(1) ok])
  then show ?thesis
    using list_all2_numeric_rows [OF assms(2)] by simp
qed

theorem batch_lookup_numeric_witness:
  "\<exists>out. batch_lookup \<lparr>df_columns = [''Name'', ''LAT'', ''Lon''],
      df_rows = [[Str ''a'', Num 0, Num 0], [Str ''b'', Num (- 339 / 10), Num (1512 / 10)]]\<rparr> = Inr out \<and>
     list_all2 row_result [(0, 0), (- 339 / 10, 1512 / 10)] out"
  using batch_lookup_numeric [of
      "\<lparr>df_columns = [''Name'', ''LAT'', ''Lon''],
        df_rows = [[Str ''a'', Num 0, Num 0], [Str ''b'', Num (- 339 / 10), Num (1512 / 10)]]\<rparr>"
      "[(0, 0), (- 339 / 10, 1512 / 10)]"]
  by (simp add: lower_examples numeric_row_def getitem_def)

text \<open>The output of that table, evaluated.\<close>

lemma batch_lookup_example:
  "batch_lookup \<lparr>df_columns = [''Name'', ''LAT'', ''Lon''],
      df_rows = [[Str ''a'', Num 0, Num 0], [Str ''b'', Num (- 339 / 10), Num (1512 / 10)]]\<rparr> =
   Inr [\<lparr>coords = [Num 0, Num 0], utm_zone = ''31N'', epsg_code = 32631,
          epsg_link = ''https://epsg.io/32631''\<rparr>,
        \<lparr>coords = [Num (- 339 / 10), Num (1512 / 10)], utm_zone = ''56S'', epsg_code = 32756,
          epsg_link = ''https://epsg.io/32756''\<rparr>]"
  by (simp add: batch_lookup_def lower_columns_def lower_examples select_columns_def
      add_columns_def df_apply_def row_get_epsg_def getitem_def get_epsg_def Let_def
      py_int_def str_int_def str_nat.simps digit_char_def)

subsection \<open>A text cell in the latitude column\<close>

lemma get_epsg_text_latitude:
  "\<exists>e. get_epsg (Str s) lon = Inl e"
  by (cases "zone_number_of lon") (simp_all add: get_epsg_def)

text \<open>
  C2, as stated, fails: with one non-numeric latitude among three rows the outcome is
  the handler's error for the whole file, not three output rows with one of them marked.
  \<^verbatim>\<open>read_csv\<close> gives such a column the dtype object, where every cell is text
  (first table); a column that mixes numbers and text (second table) ends the same way.
\<close>

theorem batch_lookup_text_row_aborts:
  "batch_lookup \<lparr>df_columns = [''lat'', ''lon''],
      df_rows = [[Str ''10'', Num 20], [Str ''abc'', Num 30], [Str ''-5'', Num 40]]\<rparr> =
     Inl (ProcessingError TypeError) \<and>
   batch_lookup \<lparr>df_columns = [''lat'', ''lon''],
      df_rows = [[Num 10, Num 20], [Str ''abc'', Num 30], [Num (- 5), Num 40]]\<rparr> =
     Inl (ProcessingError TypeError)"
  by (simp add: batch_lookup_def lower_columns_def lower_examples select_columns_def
      add_columns_def df_apply_def row_get_epsg_def getitem_def get_epsg_def Let_def)

text \<open>
  C2, amended. When the table has the columns lat and lon and some row holds a text
  value as its latitude, the whole batch ends in the handler's error: there are no
  output rows, neither a marked one for that row nor any for the other rows.
\<close>

theorem batch_lookup_text_latitude:
  assumes "''lat'' \<in> set (map lower (df_columns df))"
    and "''lon'' \<in> set (map lower (df_columns df))"
    and "r \<in> set (df_rows df)" and "length r = length (df_columns df)"
    and "getitem (zip (map lower (df_columns df)) r) ''lat'' = Inr (Str s)"
  shows "\<exists>e. batch_lookup df = Inl (ProcessingError e)"
proof -
  let ?cols = "map lower (df_columns df)"
  let ?row = "zip (selected_labels ?cols) (selected_cells ?cols r)"
  have len: "length r = length ?cols" using assms(4) by simp
  have a: "getitem ?row ''lat'' = Inr (Str s)"
    using assms(5) by (simp add: getitem_selected [OF len])
  obtain e where e: "row_get_epsg ?row = Inl e"
    using get_epsg_text_latitude [of s]
    by (cases "getitem ?row ''lon''") (auto simp add: row_get_epsg_def a)
  have "?row \<in> set (map (zip (selected_labels ?cols)) (map (selected_cells ?cols) (df_rows df)))"
    using assms(3) by auto
  moreover have "(case row_get_epsg ?row of Inl e \<Rightarrow> Inl e | Inr r \<Rightarrow> Inr (fst r)) =
      (Inl e :: py_error + string)"
    by (simp add: e)
  ultimately obtain e' where
    "apply_each (\<lambda>row. case row_get_epsg row of Inl e \<Rightarrow> Inl e | Inr r \<Rightarrow> Inr (fst r))
       (map (zip (selected_labels ?cols)) (map (selected_cells ?cols) (df_rows df))) = Inl e'"
    using apply_each_fail [where f = "\<lambda>row. case row_get_epsg row of Inl e \<Rightarrow> Inl e | Inr r \<Rightarrow> Inr (fst r)"
        and x = ?row and e = e]
    by blast
  moreover have "df_rows df \<noteq> []" using assms(3) by auto
  ultimately have "add_columns \<lparr>df_columns = selected_labels ?cols,
      df_rows = map (selected_cells ?cols) (df_rows df)\<rparr> = Inl e'"
    by (simp add: add_columns_def df_apply_def)
  then show ?thesis
    by (simp add: batch_lookup_selected [OF assms(1,2)])
qed

theorem batch_lookup_text_latitude_witness:
  "\<exists>e. batch_lookup \<lparr>df_columns = [''Name'', ''LAT'', ''Lon''],
      df_rows = [[Str ''a'', Str ''10'', Num 20], [Str ''b'', Str ''abc'', Num 30]]\<rparr> =
     Inl (ProcessingError e)"
  using batch_lookup_text_latitude [of
      "\<lparr>df_columns = [''Name'', ''LAT'', ''Lon''],
        df_rows = [[Str ''a'', Str ''10'', Num 20], [Str ''b'', Str ''abc'', Num 30]]\<rparr>"
      "[Str ''b'', Str ''abc'', Num 30]" "''abc''"]
  by (simp add: lower_examples getitem_def)

end
